theory Spec2Isabelle
  imports Complex_Main "HOL-Library.Sublist"
begin

section \<open>Python values\<close>

text \<open>
  A waveform is the one-dimensional numpy array of samples that \<^verbatim>\<open>librosa.load\<close> returns.
  Samples are modelled as real numbers: rounding, overflow and denormals of the 32-bit
  floats are outside the model. The two special float values that the code can produce
  from real samples are kept: \<^verbatim>\<open>np.mean\<close> and \<^verbatim>\<open>np.std\<close> of an empty array are NaN, and
  \<^verbatim>\<open>np.log10(0)\<close> is minus infinity.
\<close>

type_synonym waveform = "real list"

datatype npfloat = NaN | NegInf | Finite real

text \<open>Comparison of a float with a finite constant: every comparison with NaN is false.\<close>

fun fl_less :: "npfloat \<Rightarrow> real \<Rightarrow> bool" where
  "fl_less NaN c = False"
| "fl_less NegInf c = True"
| "fl_less (Finite x) c = (x < c)"

text \<open>
  Exceptions, by class, each with the message that \<^verbatim>\<open>str(e)\<close> returns. \<open>LibraryError\<close>
  stands for whatever an opaque library call (decoder, filter design, synthesis model)
  raises.
\<close>

datatype exn =
    FileNotFoundError string
  | ValueError string
  | ZeroDivisionError string
  | RuntimeWarning string
  | Exception string
  | LibraryError string

fun str_of :: "exn \<Rightarrow> string" where
  "str_of (FileNotFoundError m) = m"
| "str_of (ValueError m) = m"
| "str_of (ZeroDivisionError m) = m"
| "str_of (RuntimeWarning m) = m"
| "str_of (Exception m) = m"
| "str_of (LibraryError m) = m"

subsection \<open>numpy reductions\<close>

definition np_mean :: "waveform \<Rightarrow> npfloat" where
  "np_mean xs = (if xs = [] then NaN else Finite (sum_list xs / real (length xs)))"

definition np_sqrt :: "npfloat \<Rightarrow> npfloat" where
  "np_sqrt x = (case x of Finite v \<Rightarrow> Finite (sqrt v) | _ \<Rightarrow> NaN)"

text \<open>\<^verbatim>\<open>np.std\<close> with its default \<^verbatim>\<open>ddof=0\<close>: the population standard deviation.\<close>

definition np_std :: "waveform \<Rightarrow> npfloat" where
  "np_std xs =
     (if xs = [] then NaN
      else let mu = sum_list xs / real (length xs)
           in Finite (sqrt (sum_list (map (\<lambda>x. (x - mu)\<^sup>2) xs) / real (length xs))))"

text \<open>\<^verbatim>\<open>a.max()\<close> raises on an array of size zero.\<close>

definition np_max :: "waveform \<Rightarrow> exn + real" where
  "np_max xs =
     (if xs = []
      then Inl (ValueError ''zero-size array to reduction operation maximum which has no identity'')
      else Inr (Max (set xs)))"

text \<open>
  Division of one numpy float by another. With a zero divisor numpy issues a
  \<^verbatim>\<open>RuntimeWarning\<close> and goes on with infinity or NaN, values that the real-valued samples
  of this model cannot hold. The model stops at the warning, as Python does when warnings
  are errors, so that a division by zero shows in the result of every function that
  reaches one.
\<close>

definition np_divide :: "real \<Rightarrow> real \<Rightarrow> exn + real" where
  "np_divide x y =
     (if y = 0
      then Inl (RuntimeWarning
                  (if x = 0 then ''invalid value encountered in scalar divide''
                   else ''divide by zero encountered in scalar divide''))
      else Inr (x / y))"

text \<open>\<^verbatim>\<open>np.sqrt(np.mean(audio**2))\<close>, the root-mean-square amplitude.\<close>

definition rms :: "waveform \<Rightarrow> npfloat" where
  "rms audio = np_sqrt (np_mean (map (\<lambda>x. x\<^sup>2) audio))"

section \<open>AudioProcessor\<close>

record audio_processor =
  sample_rate :: nat

definition default_processor :: audio_processor where
  "default_processor = \<lparr>sample_rate = 22050\<rparr>"

subsection \<open>normalize_audio\<close>

text \<open>
  The RMS of an array is NaN only when the array is empty; then \<^verbatim>\<open>rms == 0\<close> is false, the
  scaled array is empty as well, and \<^verbatim>\<open>np.abs(normalized).max()\<close> raises. The scaling step
  divides the target RMS by the RMS of the signal. The later division is by a peak that
  the code has just found to be above 1.
\<close>

definition normalize_audio :: "waveform \<Rightarrow> real \<Rightarrow> exn + waveform" where
  "normalize_audio audio target_level =
     (case rms audio of
        Finite r \<Rightarrow>
          if r = 0 then Inr audio
          else
            let target_rms = 10 powr (target_level / 20)
            in (case np_divide target_rms r of
                  Inl e \<Rightarrow> Inl e
                | Inr factor \<Rightarrow>
                    let normalized = map (\<lambda>x. x * factor) audio
                    in (case np_max (map abs normalized) of
                          Inl e \<Rightarrow> Inl e
                        | Inr max_val \<Rightarrow>
                            if max_val > 1
                            then Inr (map (\<lambda>x. x / max_val * (99 / 100)) normalized)
                            else Inr normalized))
      | _ \<Rightarrow>
          (case np_max (map abs audio) of
             Inl e \<Rightarrow> Inl e
           | Inr max_val \<Rightarrow> Inr audio))"

subsection \<open>validate_audio_quality\<close>

datatype issue =
    TooShort real real
  | LevelTooLow
  | MayClip
  | LowSNR

record validation =
  is_valid :: bool
  duration :: real
  rms_level :: npfloat
  peak :: real
  snr_db :: npfloat
  issues :: "issue list"

text \<open>
  \<^verbatim>\<open>20 * np.log10(signal_estimate / (noise_estimate + 1e-10))\<close>. Both estimates are standard
  deviations, so the quotient is never negative; it is zero exactly for a constant
  signal, where the logarithm is minus infinity.
\<close>

definition snr_estimate :: "npfloat \<Rightarrow> npfloat \<Rightarrow> npfloat" where
  "snr_estimate signal_estimate noise_estimate =
     (case (signal_estimate, noise_estimate) of
        (Finite s, Finite n) \<Rightarrow>
          if s / (n + 1 / 10 ^ 10) = 0 then NegInf
          else Finite (20 * log 10 (s / (n + 1 / 10 ^ 10)))
      | _ \<Rightarrow> NaN)"

text \<open>
  The slice \<^verbatim>\<open>audio[:int(0.1 * self.sample_rate)]\<close> holds the first tenth of a second; for
  an integer sample rate the bound is the rate divided by ten, rounded down.
\<close>

definition validate_audio_quality ::
  "audio_processor \<Rightarrow> waveform \<Rightarrow> real \<Rightarrow> exn + validation" where
  "validate_audio_quality ap audio min_duration =
     (if sample_rate ap = 0 then Inl (ZeroDivisionError ''division by zero'')
      else
        let dur = real (length audio) / real (sample_rate ap);
            r = rms audio
        in (case np_max (map abs audio) of
              Inl e \<Rightarrow> Inl e
            | Inr pk \<Rightarrow>
                let noise_estimate = np_std (take (sample_rate ap div 10) audio);
                    signal_estimate = np_std audio;
                    snr_value = snr_estimate signal_estimate noise_estimate;
                    v0 = \<lparr>is_valid = True, duration = dur, rms_level = r, peak = pk,
                          snr_db = snr_value, issues = []\<rparr>;
                    v1 = (if dur < min_duration
                          then v0\<lparr>is_valid := False,
                                  issues := issues v0 @ [TooShort dur min_duration]\<rparr>
                          else v0);
                    v2 = (if fl_less r (1 / 100)
                          then v1\<lparr>is_valid := False, issues := issues v1 @ [LevelTooLow]\<rparr>
                          else v1);
                    v3 = (if pk > 99 / 100
                          then v2\<lparr>issues := issues v2 @ [MayClip]\<rparr>
                          else v2);
                    v4 = (if fl_less snr_value 10
                          then v3\<lparr>issues := issues v3 @ [LowSNR]\<rparr>
                          else v3)
                in Inr v4))"

section \<open>Strings, paths and time\<close>

text \<open>
  A Python \<^verbatim>\<open>str\<close> is a sequence of code points. The model uses 8-bit characters and reads
  each one as the code point of the same number, U+0000 to U+00FF; names beyond that range
  are outside the model. \<^verbatim>\<open>str.isalnum\<close> and \<^verbatim>\<open>str.lower\<close> follow the Unicode database, not
  ASCII: on this range the alphanumeric code points are the ASCII letters and digits, the
  letters of the Latin-1 supplement (all of U+00C0 to U+00FF but the two operators U+00D7
  and U+00F7, and U+00AA, U+00B5, U+00BA), the superscript digits U+00B2, U+00B3, U+00B9 and
  the fractions U+00BC to U+00BE.
\<close>

definition isalnum :: "char \<Rightarrow> bool" where
  "isalnum c =
     (let n = (of_char c :: nat)
      in (48 \<le> n \<and> n \<le> 57) \<or> (65 \<le> n \<and> n \<le> 90) \<or> (97 \<le> n \<and> n \<le> 122) \<or>
         n = 170 \<or> n = 178 \<or> n = 179 \<or> n = 181 \<or> n = 185 \<or> n = 186 \<or>
         n = 188 \<or> n = 189 \<or> n = 190 \<or>
         (192 \<le> n \<and> n \<le> 214) \<or> (216 \<le> n \<and> n \<le> 246) \<or> (248 \<le> n \<and> n \<le> 255))"

definition lower_char :: "char \<Rightarrow> char" where
  "lower_char c =
     (let n = (of_char c :: nat)
      in if (65 \<le> n \<and> n \<le> 90) \<or> (192 \<le> n \<and> n \<le> 214) \<or> (216 \<le> n \<and> n \<le> 222)
         then char_of (n + 32) else c)"

text \<open>The character class \<^verbatim>\<open>[a-z0-9_]\<close>, by code point.\<close>

definition lower_alnum_underscore :: "char \<Rightarrow> bool" where
  "lower_alnum_underscore c =
     (let n = (of_char c :: nat)
      in (97 \<le> n \<and> n \<le> 122) \<or> (48 \<le> n \<and> n \<le> 57) \<or> n = 95)"

definition lower :: "string \<Rightarrow> string" where
  "lower s = map lower_char s"

text \<open>
  \<^verbatim>\<open>s.replace(old, new)\<close>: every non-overlapping occurrence of \<open>old\<close>, from the left. With an
  empty \<open>old\<close> Python puts \<open>new\<close> before every character and at the end.
\<close>

function replace_from :: "string \<Rightarrow> string \<Rightarrow> string \<Rightarrow> string" where
  "replace_from [] old new = []"
| "replace_from (c # s) old new =
     (if old \<noteq> [] \<and> prefix old (c # s)
      then new @ replace_from (drop (length old) (c # s)) old new
      else c # replace_from s old new)"
  by pat_completeness auto
termination
  by (relation "measure (\<lambda>(s, old, new). length s)") auto

definition replace :: "string \<Rightarrow> string \<Rightarrow> string \<Rightarrow> string" where
  "replace s old new =
     (if old = [] then new @ concat (map (\<lambda>c. c # new) s) else replace_from s old new)"

text \<open>\<^verbatim>\<open>os.path.dirname\<close> of \<^verbatim>\<open>posixpath\<close>.\<close>

definition dirname :: "string \<Rightarrow> string" where
  "dirname p =
     (let head = rev (dropWhile (\<lambda>c. c \<noteq> CHR ''/'') (rev p))
      in if head \<noteq> [] \<and> \<not> list_all (\<lambda>c. c = CHR ''/'') head
         then rev (dropWhile (\<lambda>c. c = CHR ''/'') (rev head))
         else head)"

text \<open>What \<^verbatim>\<open>datetime.now()\<close> returns; the clock readings are arguments of the operations.\<close>

record datetime =
  year :: nat
  month :: nat
  day :: nat
  hour :: nat
  minute :: nat
  second :: nat
  microsecond :: nat

definition valid_datetime :: "datetime \<Rightarrow> bool" where
  "valid_datetime dt =
     (1000 \<le> year dt \<and> year dt \<le> 9999 \<and> 1 \<le> month dt \<and> month dt \<le> 12 \<and>
      1 \<le> day dt \<and> day dt \<le> 31 \<and> hour dt < 24 \<and> minute dt < 60 \<and> second dt < 60 \<and>
      microsecond dt < 1000000)"

text \<open>
  Zero-padded decimal fields. \<open>digit\<close> is the last decimal digit of a number, so each
  field has its width whatever the number. \<^verbatim>\<open>%Y\<close> is not padded on every platform for years
  below 1000, which \<open>valid_datetime\<close> excludes.
\<close>

definition digit :: "nat \<Rightarrow> char" where
  "digit d = ''0123456789'' ! (d mod 10)"

definition pad2 :: "nat \<Rightarrow> string" where
  "pad2 n = [digit (n div 10), digit n]"

definition pad4 :: "nat \<Rightarrow> string" where
  "pad4 n = [digit (n div 1000), digit (n div 100), digit (n div 10), digit n]"

definition pad6 :: "nat \<Rightarrow> string" where
  "pad6 n = [digit (n div 100000), digit (n div 10000), digit (n div 1000),
             digit (n div 100), digit (n div 10), digit n]"

text \<open>\<^verbatim>\<open>strftime("%Y%m%d_%H%M%S")\<close>.\<close>

definition strftime :: "datetime \<Rightarrow> string" where
  "strftime dt =
     pad4 (year dt) @ pad2 (month dt) @ pad2 (day dt) @ ''_'' @
     pad2 (hour dt) @ pad2 (minute dt) @ pad2 (second dt)"

definition isoformat :: "datetime \<Rightarrow> string" where
  "isoformat dt =
     pad4 (year dt) @ ''-'' @ pad2 (month dt) @ ''-'' @ pad2 (day dt) @ ''T'' @
     pad2 (hour dt) @ '':'' @ pad2 (minute dt) @ '':'' @ pad2 (second dt) @
     (if microsecond dt = 0 then [] else ''.'' @ pad6 (microsecond dt))"

section \<open>The world outside the process\<close>

text \<open>
  JSON values of the metadata document, the document itself (the dictionary under the key
  \<^verbatim>\<open>"models"\<close>, from model id to the model's own dictionary), and the files on disk: a
  decoded audio file or the metadata document.
\<close>

datatype jvalue =
    JString string
  | JNumber npfloat
  | JObject "(string \<times> jvalue) list"

type_synonym model_info = "string \<rightharpoonup> jvalue"

type_synonym metadata = "string \<rightharpoonup> model_info"

datatype file_content =
    Audio waveform
  | Document metadata

datatype level = INFO | WARNING | ERROR

datatype event =
    Synthesizing string
  | UsingSpeakerReference string
  | UsingDefaultVoice
  | SynthesisComplete nat
  | SynthesisError exn
  | VoiceCloningWithReference string
  | AudioQualityIssues "issue list"
  | VoiceCloningError exn
  | CreatingVoiceModel string
  | VoiceModelCreated string
  | ErrorCreatingVoiceModel exn

text \<open>One call of the synthesis model's \<^verbatim>\<open>tts_to_file\<close>, with its keyword arguments.\<close>

record tts_request =
  request_text :: string
  file_path :: string
  speaker_wav :: "string option"
  language :: "string option"

text \<open>
  The state the operations act on: the files by path, the directories the program has
  made, the log records, and the calls made to the synthesis model. Writing a file and
  removing one always succeed; a path names a file or a directory, never both.
\<close>

record world =
  files :: "string \<rightharpoonup> file_content"
  dirs :: "string set"
  log_records :: "(level \<times> event) list"
  tts_calls :: "tts_request list"

definition logger :: "level \<Rightarrow> event \<Rightarrow> world \<Rightarrow> world" where
  "logger lv ev w = w\<lparr>log_records := log_records w @ [(lv, ev)]\<rparr>"

definition path_exists :: "world \<Rightarrow> string \<Rightarrow> bool" where
  "path_exists w p = (files w p \<noteq> None)"

definition os_remove :: "string \<Rightarrow> world \<Rightarrow> world" where
  "os_remove p w = w\<lparr>files := (files w)(p := None)\<rparr>"

text \<open>
  \<^verbatim>\<open>os.makedirs(p, exist_ok=True)\<close> raises for the empty path, which is what
  \<^verbatim>\<open>os.path.dirname\<close> returns for a bare file name.
\<close>

definition makedirs :: "string \<Rightarrow> world \<Rightarrow> exn + world" where
  "makedirs p w =
     (if p = []
      then Inl (FileNotFoundError (''[Errno 2] No such file or directory: '' @ [CHR 0x27, CHR 0x27]))
      else Inr (w\<lparr>dirs := insert p (dirs w)\<rparr>))"

text \<open>
  The library calls whose results the code does not determine: silence trimming, the
  zero-phase high-pass filter, the spectral gate, the synthesis model and the size of an
  encoded file. Each may raise; the synthesis model may change any file before it returns
  or raises.
\<close>

record externals =
  librosa_trim :: "waveform \<Rightarrow> nat \<Rightarrow> exn + waveform"
  filtfilt_highpass :: "waveform \<Rightarrow> real \<Rightarrow> nat \<Rightarrow> exn + waveform"
  spectral_gate :: "waveform \<Rightarrow> real \<Rightarrow> exn + waveform"
  tts_to_file ::
    "tts_request \<Rightarrow> (string \<rightharpoonup> file_content) \<Rightarrow> exn option \<times> (string \<rightharpoonup> file_content)"
  getsize :: "file_content \<Rightarrow> nat"

section \<open>AudioProcessor: files and the preprocessing pipeline\<close>

text \<open>
  \<^verbatim>\<open>librosa.load\<close> decodes, resamples to the target rate and mixes down to mono; the audio
  stored under a path is the waveform this yields.
\<close>

definition load_audio ::
  "audio_processor \<Rightarrow> world \<Rightarrow> string \<Rightarrow> nat option \<Rightarrow> exn + waveform \<times> nat" where
  "load_audio ap w path target_sr =
     (let sr = (case target_sr of None \<Rightarrow> sample_rate ap | Some t \<Rightarrow> t)
      in case files w path of
           None \<Rightarrow> Inl (FileNotFoundError ''[Errno 2] No such file or directory'')
         | Some (Document d) \<Rightarrow> Inl (LibraryError ''file does not contain audio'')
         | Some (Audio a) \<Rightarrow> Inr (a, sr))"

text \<open>
  \<^verbatim>\<open>save_audio\<close>: the directory is made first, then the audio is normalised, then it is
  written. The optional sample rate only sets the rate in the header of the file.
\<close>

definition save_audio ::
  "audio_processor \<Rightarrow> waveform \<Rightarrow> string \<Rightarrow> world \<Rightarrow> (exn + unit) \<times> world" where
  "save_audio ap audio_data output w =
     (case makedirs (dirname output) w of
        Inl e \<Rightarrow> (Inl e, w)
      | Inr w1 \<Rightarrow>
          (case normalize_audio audio_data (- 20) of
             Inl e \<Rightarrow> (Inl e, w1)
           | Inr normalized \<Rightarrow>
               (Inr (), w1\<lparr>files := (files w1)(output \<mapsto> Audio normalized)\<rparr>)))"

definition trim_silence :: "externals \<Rightarrow> waveform \<Rightarrow> nat \<Rightarrow> exn + waveform" where
  "trim_silence ext audio top_db = librosa_trim ext audio top_db"

definition apply_highpass_filter ::
  "externals \<Rightarrow> audio_processor \<Rightarrow> waveform \<Rightarrow> real \<Rightarrow> nat \<Rightarrow> exn + waveform" where
  "apply_highpass_filter ext ap audio cutoff order =
     (if sample_rate ap = 0 then Inl (ZeroDivisionError ''float division by zero'')
      else filtfilt_highpass ext audio (cutoff / (real (sample_rate ap) / 2)) order)"

definition reduce_noise :: "externals \<Rightarrow> waveform \<Rightarrow> real \<Rightarrow> exn + waveform" where
  "reduce_noise ext audio noise_threshold = spectral_gate ext audio noise_threshold"

definition preprocess_for_tts ::
  "externals \<Rightarrow> audio_processor \<Rightarrow> waveform \<Rightarrow> exn + waveform" where
  "preprocess_for_tts ext ap audio =
     (case trim_silence ext audio 30 of
        Inl e \<Rightarrow> Inl e
      | Inr trimmed \<Rightarrow>
          (case apply_highpass_filter ext ap trimmed 80 5 of
             Inl e \<Rightarrow> Inl e
           | Inr filtered \<Rightarrow>
               (case reduce_noise ext filtered (2 / 100) of
                  Inl e \<Rightarrow> Inl e
                | Inr cleaned \<Rightarrow> normalize_audio cleaned (- 20))))"

section \<open>TTSEngine\<close>

record tts_engine =
  current_model :: string
  engine_processor :: audio_processor

text \<open>
  The dictionaries the operations return: \<^verbatim>\<open>{"success": True, ...}\<close> with the payload, or
  \<^verbatim>\<open>{"success": False, "error": ...}\<close>, which carries the key \<^verbatim>\<open>"issues"\<close> only when
  validation rejected the audio.
\<close>

datatype 'a response =
    Success 'a
  | Failure string "issue list option"

record synthesis =
  output_path :: string
  file_size :: nat
  text_length :: nat
  model_name :: string
  audio_quality :: "validation option"

text \<open>
  The call of the synthesis model: it is recorded, then it acts on the files. What it did
  to the files stays when it raises.
\<close>

definition call_tts :: "externals \<Rightarrow> tts_request \<Rightarrow> world \<Rightarrow> (exn + unit) \<times> world" where
  "call_tts ext req w =
     (let (raised, fs) = tts_to_file ext req (files w);
          w1 = w\<lparr>files := fs, tts_calls := tts_calls w @ [req]\<rparr>
      in case raised of None \<Rightarrow> (Inr (), w1) | Some e \<Rightarrow> (Inl e, w1))"

text \<open>The handler of \<^verbatim>\<open>synthesize_speech\<close>: every exception becomes a failure result.\<close>

definition synthesis_failed :: "exn \<Rightarrow> world \<Rightarrow> synthesis response \<times> world" where
  "synthesis_failed e w = (Failure (str_of e) None, logger ERROR (SynthesisError e) w)"

definition synthesize_speech ::
  "externals \<Rightarrow> tts_engine \<Rightarrow> string \<Rightarrow> string \<Rightarrow> string option \<Rightarrow> string \<Rightarrow> world
     \<Rightarrow> synthesis response \<times> world" where
  "synthesize_speech ext eng txt output speaker lang w =
     (case makedirs (dirname output) w of
        Inl e \<Rightarrow> synthesis_failed e w
      | Inr w1 \<Rightarrow>
          let w2 = logger INFO (Synthesizing (take 50 txt)) w1;
              cloning = (case speaker of None \<Rightarrow> False | Some s \<Rightarrow> s \<noteq> [] \<and> path_exists w2 s);
              (called, w3) =
                (if cloning
                 then call_tts ext
                        \<lparr>request_text = txt, file_path = output, speaker_wav = speaker,
                         language = Some lang\<rparr>
                        (logger INFO (UsingSpeakerReference (the speaker)) w2)
                 else call_tts ext
                        \<lparr>request_text = txt, file_path = output, speaker_wav = None,
                         language = None\<rparr>
                        (logger INFO UsingDefaultVoice w2))
          in case called of
               Inl e \<Rightarrow> synthesis_failed e w3
             | Inr u \<Rightarrow>
                 (case files w3 output of
                    None \<Rightarrow> synthesis_failed (Exception ''Output file was not created'') w3
                  | Some content \<Rightarrow>
                      (Success \<lparr>output_path = output, file_size = getsize ext content,
                                text_length = length txt, model_name = current_model eng,
                                audio_quality = None\<rparr>,
                       logger INFO (SynthesisComplete (getsize ext content)) w3)))"

text \<open>The handler of \<^verbatim>\<open>clone_voice\<close>.\<close>

definition cloning_failed :: "exn \<Rightarrow> world \<Rightarrow> synthesis response \<times> world" where
  "cloning_failed e w = (Failure (str_of e) None, logger ERROR (VoiceCloningError e) w)"

definition temp_path_of :: "string \<Rightarrow> string" where
  "temp_path_of reference_audio = replace reference_audio ''.wav'' ''_processed.wav''"

definition clone_voice ::
  "externals \<Rightarrow> tts_engine \<Rightarrow> string \<Rightarrow> string \<Rightarrow> string \<Rightarrow> string \<Rightarrow> world
     \<Rightarrow> synthesis response \<times> world" where
  "clone_voice ext eng txt reference_audio output lang w =
     (let w0 = logger INFO (VoiceCloningWithReference reference_audio) w
      in case load_audio (engine_processor eng) w0 reference_audio None of
           Inl e \<Rightarrow> cloning_failed e w0
         | Inr (audio, sr) \<Rightarrow>
             (case validate_audio_quality (engine_processor eng) audio 5 of
                Inl e \<Rightarrow> cloning_failed e w0
              | Inr validation \<Rightarrow>
                  let w1 = (if \<not> is_valid validation
                            then logger WARNING (AudioQualityIssues (issues validation)) w0
                            else w0)
                  in (case preprocess_for_tts ext (engine_processor eng) audio of
                        Inl e \<Rightarrow> cloning_failed e w1
                      | Inr processed_audio \<Rightarrow>
                          let temp_path = temp_path_of reference_audio
                          in (case save_audio (engine_processor eng) processed_audio temp_path w1 of
                                (Inl e, w2) \<Rightarrow> cloning_failed e w2
                              | (Inr u, w2) \<Rightarrow>
                                  let (result, w3) =
                                        synthesize_speech ext eng txt output (Some temp_path) lang w2;
                                      w4 = (if path_exists w3 temp_path then os_remove temp_path w3
                                            else w3)
                                  in (case result of
                                        Success r \<Rightarrow>
                                          (Success (r\<lparr>audio_quality := Some validation\<rparr>), w4)
                                      | Failure msg iss \<Rightarrow> (Failure msg iss, w4))))))"

section \<open>VoiceCloner\<close>

record voice_cloner =
  models_dir :: string
  cloner_processor :: audio_processor
  metadata :: metadata

definition metadata_file :: "voice_cloner \<Rightarrow> string" where
  "metadata_file vc = models_dir vc @ ''/models_metadata.json''"

text \<open>\<^verbatim>\<open>_save_metadata\<close>: the whole document is written anew.\<close>

definition save_metadata :: "voice_cloner \<Rightarrow> world \<Rightarrow> world" where
  "save_metadata vc w = w\<lparr>files := (files w)(metadata_file vc \<mapsto> Document (metadata vc))\<rparr>"

definition clean_name :: "string \<Rightarrow> string" where
  "clean_name name = map (\<lambda>c. if isalnum c then c else CHR ''_'') (lower name)"

text \<open>\<^verbatim>\<open>_generate_model_id\<close>.\<close>

definition generate_model_id :: "string \<Rightarrow> datetime \<Rightarrow> string" where
  "generate_model_id name now = clean_name name @ ''_'' @ strftime now"

definition get_model :: "voice_cloner \<Rightarrow> string \<Rightarrow> model_info option" where
  "get_model vc model_id = metadata vc model_id"

text \<open>The handler of \<^verbatim>\<open>create_voice_model\<close>.\<close>

definition creation_failed ::
  "exn \<Rightarrow> voice_cloner \<Rightarrow> world \<Rightarrow> (string \<times> model_info) response \<times> voice_cloner \<times> world" where
  "creation_failed e vc w =
     (Failure (str_of e) None, vc, logger ERROR (ErrorCreatingVoiceModel e) w)"

text \<open>
  \<^verbatim>\<open>create_voice_model\<close> reads the clock twice: for the model id and for \<^verbatim>\<open>created_at\<close>.
\<close>

definition create_voice_model ::
  "externals \<Rightarrow> voice_cloner \<Rightarrow> string \<Rightarrow> string \<Rightarrow> string \<Rightarrow> datetime \<Rightarrow> datetime \<Rightarrow> world
     \<Rightarrow> (string \<times> model_info) response \<times> voice_cloner \<times> world" where
  "create_voice_model ext vc audio_path name description now_id now_created w =
     (let w0 = logger INFO (CreatingVoiceModel name) w
      in case load_audio (cloner_processor vc) w0 audio_path None of
           Inl e \<Rightarrow> creation_failed e vc w0
         | Inr (audio, sr) \<Rightarrow>
             (case validate_audio_quality (cloner_processor vc) audio 10 of
                Inl e \<Rightarrow> creation_failed e vc w0
              | Inr validation \<Rightarrow>
                  if \<not> is_valid validation
                  then (Failure ''Audio quality validation failed'' (Some (issues validation)),
                        vc, w0)
                  else
                    (case preprocess_for_tts ext (cloner_processor vc) audio of
                       Inl e \<Rightarrow> creation_failed e vc w0
                     | Inr processed_audio \<Rightarrow>
                         let model_id = generate_model_id name now_id;
                             model_dir = models_dir vc @ ''/'' @ model_id;
                             w1 = w0\<lparr>dirs := insert model_dir (dirs w0)\<rparr>;
                             reference_path = model_dir @ ''/reference.wav''
                         in (case save_audio (cloner_processor vc) processed_audio
                                     reference_path w1 of
                               (Inl e, w2) \<Rightarrow> creation_failed e vc w2
                             | (Inr u, w2) \<Rightarrow>
                                 let info =
                                       [''id'' \<mapsto> JString model_id,
                                        ''name'' \<mapsto> JString name,
                                        ''description'' \<mapsto> JString description,
                                        ''created_at'' \<mapsto> JString (isoformat now_created),
                                        ''reference_audio'' \<mapsto> JString reference_path,
                                        ''duration'' \<mapsto> JNumber (Finite (duration validation)),
                                        ''quality_metrics'' \<mapsto>
                                          JObject [(''snr_db'', JNumber (snr_db validation)),
                                                   (''rms'', JNumber (rms_level validation))],
                                        ''type'' \<mapsto> JString ''custom''];
                                     vc1 = vc\<lparr>metadata := (metadata vc)(model_id \<mapsto> info)\<rparr>;
                                     w3 = save_metadata vc1 w2;
                                     w4 = logger INFO (VoiceModelCreated model_id) w3
                                 in (Success (model_id, info), vc1, w4)))))"

text \<open>
  \<^verbatim>\<open>update_model_info\<close>. The two optional arguments are tested differently: \<^verbatim>\<open>if name:\<close> and
  \<^verbatim>\<open>if description is not None:\<close>.
\<close>

definition update_model_info ::
  "voice_cloner \<Rightarrow> string \<Rightarrow> string option \<Rightarrow> string option \<Rightarrow> datetime \<Rightarrow> world
     \<Rightarrow> model_info response \<times> voice_cloner \<times> world" where
  "update_model_info vc model_id name description now w =
     (case metadata vc model_id of
        None \<Rightarrow> (Failure ''Model not found'' None, vc, w)
      | Some info \<Rightarrow>
          let info1 = (case name of
                         None \<Rightarrow> info
                       | Some n \<Rightarrow> if n \<noteq> [] then info(''name'' \<mapsto> JString n) else info);
              info2 = (case description of
                         None \<Rightarrow> info1
                       | Some d \<Rightarrow> info1(''description'' \<mapsto> JString d));
              info3 = info2(''updated_at'' \<mapsto> JString (isoformat now));
              vc1 = vc\<lparr>metadata := (metadata vc)(model_id \<mapsto> info3)\<rparr>;
              w1 = save_metadata vc1 w
          in (Success info3, vc1, w1))"

section \<open>Test doubles\<close>

text \<open>
  Stand-ins for the library calls, used where a property is run on a concrete input: the
  three transforms return their input, and the synthesis model is given.
\<close>

definition stub_externals ::
  "(tts_request \<Rightarrow> (string \<rightharpoonup> file_content) \<Rightarrow> exn option \<times> (string \<rightharpoonup> file_content)) \<Rightarrow> externals" where
  "stub_externals model =
     \<lparr>librosa_trim = (\<lambda>a top_db. Inr a),
      filtfilt_highpass = (\<lambda>a cutoff order. Inr a),
      spectral_gate = (\<lambda>a threshold. Inr a),
      tts_to_file = model,
      getsize = (\<lambda>c. case c of Audio a \<Rightarrow> 44 + 2 * length a | Document d \<Rightarrow> 0)\<rparr>"

definition raising_model ::
  "tts_request \<Rightarrow> (string \<rightharpoonup> file_content) \<Rightarrow> exn option \<times> (string \<rightharpoonup> file_content)" where
  "raising_model req fs = (Some (LibraryError ''model failure''), fs)"

definition writing_model ::
  "tts_request \<Rightarrow> (string \<rightharpoonup> file_content) \<Rightarrow> exn option \<times> (string \<rightharpoonup> file_content)" where
  "writing_model req fs = (None, fs(file_path req \<mapsto> Audio [0]))"

definition example_engine :: tts_engine where
  "example_engine = \<lparr>current_model = ''tts_models/multilingual/multi-dataset/xtts_v2'',
                      engine_processor = default_processor\<rparr>"

text \<open>A world that holds one audio file and nothing else.\<close>

definition example_world :: "string \<Rightarrow> waveform \<Rightarrow> world" where
  "example_world p a = \<lparr>files = [p \<mapsto> Audio a], dirs = {}, log_records = [], tts_calls = []\<rparr>"

definition example_cloner :: voice_cloner where
  "example_cloner =
     \<lparr>models_dir = ''models'', cloner_processor = default_processor,
      metadata = [''old_voice_20240101_120000'' \<mapsto>
                    [''id'' \<mapsto> JString ''old_voice_20240101_120000'',
                     ''name'' \<mapsto> JString ''Old Voice'',
                     ''description'' \<mapsto> JString ''first take'']]\<rparr>"

definition example_time :: datetime where
  "example_time = \<lparr>year = 2024, month = 1, day = 1, hour = 12, minute = 0, second = 0,
                    microsecond = 0\<rparr>"

section \<open>Properties of the audio processor\<close>

lemma rms_eq_NaN_iff: "rms audio = NaN \<longleftrightarrow> audio = []"
  by (simp add: rms_def np_mean_def np_sqrt_def)

lemma rms_nonempty:
  "audio \<noteq> [] \<Longrightarrow>
     rms audio = Finite (sqrt (sum_list (map (\<lambda>x. x\<^sup>2) audio) / real (length audio)))"
  by (simp add: rms_def np_mean_def np_sqrt_def)

lemma rms_Finite_nonempty: "rms audio = Finite r \<Longrightarrow> audio \<noteq> []"
  by (auto simp: rms_def np_mean_def np_sqrt_def)

lemma all_zero_rms: "audio \<noteq> [] \<Longrightarrow> \<forall>x\<in>set audio. x = 0 \<Longrightarrow> rms audio = Finite 0"
proof -
  assume ne: "audio \<noteq> []" and z: "\<forall>x\<in>set audio. x = 0"
  have "map (\<lambda>x. x\<^sup>2) audio = map (\<lambda>x. 0) audio" using z by (intro map_cong) auto
  then have "sum_list (map (\<lambda>x. x\<^sup>2) audio) = sum_list (map (\<lambda>x. 0) audio)"
    by (rule arg_cong)
  then have "sum_list (map (\<lambda>x. x\<^sup>2) audio) = 0" by simp
  with ne show ?thesis by (simp add: rms_nonempty)
qed

lemma normalize_audio_nonempty:
  assumes "audio \<noteq> []"
  shows "\<exists>out. normalize_audio audio lvl = Inr out \<and> out \<noteq> []"
proof -
  obtain r where r: "rms audio = Finite r" using assms by (auto simp: rms_nonempty)
  show ?thesis
  proof (cases "r = 0")
    case True
    with r assms show ?thesis by (simp add: normalize_audio_def)
  next
    case False
    with r assms show ?thesis
      by (simp add: normalize_audio_def np_divide_def np_max_def Let_def)
  qed
qed

text \<open>
  The scaling step on its own divides by the RMS: with an RMS of zero it is a division by
  zero, whatever the target level.
\<close>

lemma scaling_by_zero_rms:
  "np_divide (10 powr (lvl / 20)) 0 =
     Inl (RuntimeWarning ''divide by zero encountered in scalar divide'')"
  by (simp add: np_divide_def)

lemma normalize_audio_no_warning: "normalize_audio audio lvl \<noteq> Inl (RuntimeWarning m)"
proof (cases "rms audio")
  case NaN
  then show ?thesis
    by (simp add: normalize_audio_def np_max_def split: sum.splits)
next
  case NegInf
  then show ?thesis
    by (simp add: normalize_audio_def np_max_def split: sum.splits)
next
  case (Finite r)
  then show ?thesis
    by (simp add: normalize_audio_def np_divide_def np_max_def Let_def split: sum.splits)
qed

text \<open>
  C7. A waveform whose RMS is exactly zero is returned unchanged, whatever the target
  level, and every non-empty waveform of zeros has RMS zero. The scaling step, which
  would divide by that zero, is not reached: no call of \<open>normalize_audio\<close>, on any
  waveform, ends in the warning of a division by zero.
\<close>

theorem normalize_audio_zero_rms:
  "(rms audio = Finite 0 \<longrightarrow> normalize_audio audio lvl = Inr audio) \<and>
   (audio \<noteq> [] \<and> (\<forall>x\<in>set audio. x = 0) \<longrightarrow> normalize_audio audio lvl = Inr audio) \<and>
   (\<forall>m. normalize_audio audio lvl \<noteq> Inl (RuntimeWarning m))"
proof -
  have "rms audio = Finite 0 \<longrightarrow> normalize_audio audio lvl = Inr audio"
    by (simp add: normalize_audio_def)
  moreover have "audio \<noteq> [] \<and> (\<forall>x\<in>set audio. x = 0) \<longrightarrow> normalize_audio audio lvl = Inr audio"
    using all_zero_rms [of audio] by (auto simp: normalize_audio_def)
  moreover have "\<forall>m. normalize_audio audio lvl \<noteq> Inl (RuntimeWarning m)"
    using normalize_audio_no_warning by blast
  ultimately show ?thesis by blast
qed

theorem normalize_audio_zero_rms_witness:
  "rms [0, 0, 0] = Finite 0 \<and> normalize_audio [0, 0, 0] (- 20) = Inr [0, 0, 0] \<and>
   np_divide (10 powr (- 20 / 20)) 0 =
     Inl (RuntimeWarning ''divide by zero encountered in scalar divide'')"
proof -
  have h: "rms [0, 0, 0] = Finite 0" by (simp add: rms_def np_mean_def np_sqrt_def)
  with normalize_audio_zero_rms [of "[0, 0, 0]" "- 20"] show ?thesis
    by (simp add: np_divide_def)
qed

lemma Max_scale: 
  fixes S :: "real set"
  assumes "finite S" "S \<noteq> {}" "0 \<le> c"
  shows "Max ((\<lambda>x. x * c) ` S) = Max S * c"
proof -
  have "mono (\<lambda>x::real. x * c)" using assms(3) by (simp add: mono_def mult_right_mono)
  from mono_Max_commute[OF this assms(1,2)] show ?thesis by simp
qed

lemma peak_rescaled:
  fixes xs :: waveform
  assumes ne: "xs \<noteq> []" and m: "m = Max (set (map abs xs))" and pos: "0 < m"
  shows "Max (set (map abs (map (\<lambda>x. x / m * c) xs))) = \<bar>c\<bar>"
proof -
  have "set (map abs (map (\<lambda>x. x / m * c) xs)) = (\<lambda>y. y * (\<bar>c\<bar> / m)) ` set (map abs xs)"
    using pos by (auto simp: abs_mult image_iff)
  moreover have "Max ((\<lambda>y. y * (\<bar>c\<bar> / m)) ` set (map abs xs)) = Max (set (map abs xs)) * (\<bar>c\<bar> / m)"
    using ne pos by (intro Max_scale) auto
  ultimately show ?thesis using m pos by simp
qed

lemma normalize_audio_scaled:
  assumes "rms audio = Finite r" "r \<noteq> 0"
    and "np_max (map abs (map (\<lambda>x. x * (10 powr (lvl / 20) / r)) audio)) = Inr m"
  shows "normalize_audio audio lvl =
           (if 1 < m
            then Inr (map (\<lambda>x. x / m * (99 / 100)) (map (\<lambda>x. x * (10 powr (lvl / 20) / r)) audio))
            else Inr (map (\<lambda>x. x * (10 powr (lvl / 20) / r)) audio))"
proof -
  have "np_divide (10 powr (lvl / 20)) r = Inr (10 powr (lvl / 20) / r)"
    using assms(2) by (simp add: np_divide_def)
  then show ?thesis
    unfolding normalize_audio_def Let_def
    by (simp only: assms npfloat.case if_False sum.case)
qed

text \<open>
  C6. For a waveform with a non-zero RMS, \<open>normalize_audio\<close> returns a waveform whose peak
  amplitude is at most 1; when the peak of the RMS-scaled signal exceeds 1, the peak of
  the result is 0.99.
\<close>

theorem normalize_audio_peak:
  assumes r: "rms audio = Finite r" and nz: "r \<noteq> 0"
  shows "\<exists>out pk. normalize_audio audio lvl = Inr out \<and> np_max (map abs out) = Inr pk \<and> pk \<le> 1 \<and>
           (\<forall>m. np_max (map abs (map (\<lambda>x. x * (10 powr (lvl / 20) / r)) audio)) = Inr m \<and> 1 < m
                \<longrightarrow> pk = 99 / 100)"
proof -
  from r have ne: "audio \<noteq> []" by (rule rms_Finite_nonempty)
  define scaled where "scaled = map (\<lambda>x. x * (10 powr (lvl / 20) / r)) audio"
  define m where "m = Max (set (map abs scaled))"
  have sne: "scaled \<noteq> []" using ne by (simp add: scaled_def)
  have mx: "np_max (map abs scaled) = Inr m" using sne by (simp add: np_max_def m_def)
  show ?thesis
  proof (cases "1 < m")
    case True
    then have pos: "0 < m" by simp
    have out: "normalize_audio audio lvl = Inr (map (\<lambda>x. x / m * (99 / 100)) scaled)"
      using normalize_audio_scaled [OF r nz mx [unfolded scaled_def]] True
      by (simp only: if_True scaled_def)
    have "Max (set (map abs (map (\<lambda>x. x / m * (99 / 100)) scaled))) = \<bar>99 / 100\<bar>"
      using sne m_def pos by (rule peak_rescaled)
    then have pk: "np_max (map abs (map (\<lambda>x. x / m * (99 / 100)) scaled)) = Inr (99 / 100)"
      using sne by (simp add: np_max_def)
    have "(99 / 100 :: real) \<le> 1" by simp
    with out pk show ?thesis by blast
  next
    case False
    have out: "normalize_audio audio lvl = Inr scaled"
      using normalize_audio_scaled [OF r nz mx [unfolded scaled_def]] False
      by (simp only: if_False scaled_def)
    have "m \<le> 1" using False by simp
    moreover have "\<forall>k. np_max (map abs scaled) = Inr k \<and> 1 < k \<longrightarrow> m = 99 / 100"
      using mx False by simp
    ultimately show ?thesis using out mx unfolding scaled_def by blast
  qed
qed

theorem normalize_audio_peak_witness:
  "\<exists>out pk. normalize_audio [2, 0, 0, 0] 0 = Inr out \<and> np_max (map abs out) = Inr pk \<and>
     pk \<le> 1 \<and> pk = 99 / 100"
proof -
  have h: "rms [2, 0, 0, 0] = Finite 1" by (simp add: rms_def np_mean_def np_sqrt_def)
  show ?thesis using normalize_audio_peak [OF h, of 0] by (simp add: np_max_def)
qed

lemma validate_nonempty:
  assumes "sample_rate ap \<noteq> 0" "audio \<noteq> []"
  shows "\<exists>v. validate_audio_quality ap audio md = Inr v \<and>
           duration v = real (length audio) / real (sample_rate ap) \<and>
           rms_level v = rms audio \<and>
           peak v = Max (set (map abs audio)) \<and>
           snr_db v = snr_estimate (np_std audio) (np_std (take (sample_rate ap div 10) audio)) \<and>
           (is_valid v \<longleftrightarrow> \<not> (duration v < md \<or> fl_less (rms_level v) (1 / 100))) \<and>
           (TooShort (duration v) md \<in> set (issues v) \<longleftrightarrow> duration v < md) \<and>
           (LevelTooLow \<in> set (issues v) \<longleftrightarrow> fl_less (rms_level v) (1 / 100)) \<and>
           (MayClip \<in> set (issues v) \<longleftrightarrow> peak v > 99 / 100) \<and>
           (LowSNR \<in> set (issues v) \<longleftrightarrow> fl_less (snr_db v) 10)"
  using assms by (simp add: validate_audio_quality_def np_max_def Let_def)

lemma validate_returns:
  "sample_rate ap \<noteq> 0 \<Longrightarrow> audio \<noteq> [] \<Longrightarrow> \<exists>v. validate_audio_quality ap audio md = Inr v"
  by (simp add: validate_audio_quality_def np_max_def Let_def)

section \<open>Properties of the synthesis engine\<close>

lemma load_audio_logged:
  "files w p = Some (Audio a) \<Longrightarrow> load_audio ap (logger lv ev w) p None = Inr (a, sample_rate ap)"
  by (simp add: load_audio_def logger_def)

lemma save_audio_ok:
  assumes "dirname p \<noteq> []" "normalize_audio a (- 20) = Inr n"
  shows "save_audio ap a p w = (Inr (), w\<lparr>dirs := insert (dirname p) (dirs w), files := (files w)(p \<mapsto> Audio n)\<rparr>)"
  using assms by (simp add: save_audio_def makedirs_def)

lemma clone_voice_after_save:
  assumes "files w ref = Some (Audio audio)"
    and "validate_audio_quality (engine_processor eng) audio 5 = Inr v"
    and "preprocess_for_tts ext (engine_processor eng) audio = Inr processed"
    and "normalize_audio processed (- 20) = Inr normalized"
    and "dirname (temp_path_of ref) \<noteq> []"
    and "w0 = logger INFO (VoiceCloningWithReference ref) w"
    and "w1 = (if \<not> is_valid v then logger WARNING (AudioQualityIssues (issues v)) w0 else w0)"
    and "w2 = w1\<lparr>dirs := insert (dirname (temp_path_of ref)) (dirs w1),
                   files := (files w1)(temp_path_of ref \<mapsto> Audio normalized)\<rparr>"
    and "synthesize_speech ext eng txt out (Some (temp_path_of ref)) lang w2 = (result, w3)"
  shows "fst (clone_voice ext eng txt ref out lang w) =
           (case result of
              Success r \<Rightarrow> Success (r\<lparr>audio_quality := Some v\<rparr>)
            | Failure msg iss \<Rightarrow> Failure msg iss) \<and>
         snd (clone_voice ext eng txt ref out lang w) =
           (if path_exists w3 (temp_path_of ref) then os_remove (temp_path_of ref) w3 else w3)"
proof -
  have l: "load_audio (engine_processor eng) w0 ref None = Inr (audio, sample_rate (engine_processor eng))"
    unfolding assms(6) using assms(1) by (rule load_audio_logged)
  have s: "save_audio (engine_processor eng) processed (temp_path_of ref) w1 = (Inr (), w2)"
    unfolding assms(8) using assms(5) assms(4) by (rule save_audio_ok)
  show ?thesis
    unfolding clone_voice_def Let_def assms(6) [symmetric]
    by (cases result) (simp_all add: l assms(2) assms(7) [symmetric] assms(3) s assms(9))
qed

lemma temp_ex: "temp_path_of ''refs/a.wav'' = ''refs/a_processed.wav''"
  by (simp add: temp_path_of_def replace_def)

lemma dirname_ex: "dirname ''refs/a_processed.wav'' = ''refs''"
  by (simp add: dirname_def)

lemma stub_preprocess:
  "preprocess_for_tts (stub_externals model) default_processor audio = normalize_audio audio (- 20)"
  by (simp add: preprocess_for_tts_def trim_silence_def apply_highpass_filter_def
      reduce_noise_def stub_externals_def default_processor_def)

lemma synthesize_speech_raising:
  "dirname out \<noteq> [] \<Longrightarrow>
     fst (synthesize_speech (stub_externals raising_model) eng txt out speaker lang w) =
       Failure ''model failure'' None"
  by (auto simp: synthesize_speech_def makedirs_def Let_def call_tts_def synthesis_failed_def
      stub_externals_def raising_model_def split: prod.splits)

text \<open>
  C1. Once \<open>clone_voice\<close> has written the temporary processed-reference file, the file is
  gone when the call returns, whatever the synthesis model does: produce its output,
  return without one, or raise. \<open>synthesize_speech\<close> turns every exception into a failure
  result, so the clean-up that follows it always runs.
\<close>

theorem clone_voice_removes_temp_file:
  assumes "files w ref = Some (Audio audio)"
    and "validate_audio_quality (engine_processor eng) audio 5 = Inr v"
    and "preprocess_for_tts ext (engine_processor eng) audio = Inr processed"
    and "normalize_audio processed (- 20) = Inr normalized"
    and "dirname (temp_path_of ref) \<noteq> []"
  shows "files (snd (clone_voice ext eng txt ref out lang w)) (temp_path_of ref) = None"
proof -
  define w0 where "w0 = logger INFO (VoiceCloningWithReference ref) w"
  define w1 where "w1 = (if \<not> is_valid v then logger WARNING (AudioQualityIssues (issues v)) w0 else w0)"
  define w2 where "w2 = w1\<lparr>dirs := insert (dirname (temp_path_of ref)) (dirs w1),
                   files := (files w1)(temp_path_of ref \<mapsto> Audio normalized)\<rparr>"
  obtain result w3 where syn: "synthesize_speech ext eng txt out (Some (temp_path_of ref)) lang w2 = (result, w3)"
    by (cases "synthesize_speech ext eng txt out (Some (temp_path_of ref)) lang w2") blast
  define w4 where "w4 = (if path_exists w3 (temp_path_of ref) then os_remove (temp_path_of ref) w3 else w3)"
  have gone: "files w4 (temp_path_of ref) = None"
    by (simp add: w4_def path_exists_def os_remove_def)
  have "snd (clone_voice ext eng txt ref out lang w) = w4"
    unfolding w4_def
    using clone_voice_after_save [OF assms w0_def w1_def w2_def syn] by (rule conjunct2)
  with gone show ?thesis by simp
qed

text \<open>
  An instance with an injected fault: the synthesis model raises. The call reports the
  failure, and the temporary file is gone.
\<close>

theorem clone_voice_removes_temp_file_witness:
  "fst (clone_voice (stub_externals raising_model) example_engine ''hello''
          ''refs/a.wav'' ''out/speech.wav'' ''en'' (example_world ''refs/a.wav'' [1 / 2])) =
     Failure ''model failure'' None \<and>
   files (snd (clone_voice (stub_externals raising_model) example_engine ''hello''
                 ''refs/a.wav'' ''out/speech.wav'' ''en''
                 (example_world ''refs/a.wav'' [1 / 2])))
     ''refs/a_processed.wav'' = None"
proof -
  let ?w = "example_world ''refs/a.wav'' [1 / 2]"
  let ?ext = "stub_externals raising_model"
  have f: "files ?w ''refs/a.wav'' = Some (Audio [1 / 2])"
    by (simp add: example_world_def)
  obtain v where v: "validate_audio_quality (engine_processor example_engine) [1 / 2] 5 = Inr v"
    using validate_returns [of default_processor "[1 / 2]" 5]
    by (auto simp: example_engine_def default_processor_def)
  obtain processed where p: "normalize_audio [1 / 2] (- 20) = Inr processed" and pne: "processed \<noteq> []"
    using normalize_audio_nonempty [of "[1 / 2]" "- 20"] by auto
  have pre: "preprocess_for_tts ?ext (engine_processor example_engine) [1 / 2] = Inr processed"
    using p by (simp add: stub_preprocess example_engine_def)
  obtain normalized where n: "normalize_audio processed (- 20) = Inr normalized"
    using normalize_audio_nonempty [OF pne, of "- 20"] by auto
  have d: "dirname (temp_path_of ''refs/a.wav'') \<noteq> []"
    by (simp add: temp_ex dirname_ex)
  have o: "dirname ''out/speech.wav'' \<noteq> []" by (simp add: dirname_def)
  define w2 where "w2 =
    (if \<not> is_valid v
     then logger WARNING (AudioQualityIssues (issues v))
            (logger INFO (VoiceCloningWithReference ''refs/a.wav'') ?w)
     else logger INFO (VoiceCloningWithReference ''refs/a.wav'') ?w)
      \<lparr>dirs := insert (dirname (temp_path_of ''refs/a.wav''))
          (dirs (if \<not> is_valid v
                 then logger WARNING (AudioQualityIssues (issues v))
                        (logger INFO (VoiceCloningWithReference ''refs/a.wav'') ?w)
                 else logger INFO (VoiceCloningWithReference ''refs/a.wav'') ?w)),
       files := (files (if \<not> is_valid v
                 then logger WARNING (AudioQualityIssues (issues v))
                        (logger INFO (VoiceCloningWithReference ''refs/a.wav'') ?w)
                 else logger INFO (VoiceCloningWithReference ''refs/a.wav'') ?w))
                (temp_path_of ''refs/a.wav'' \<mapsto> Audio normalized)\<rparr>"
  obtain result w3 where syn:
    "synthesize_speech ?ext example_engine ''hello'' ''out/speech.wav''
       (Some (temp_path_of ''refs/a.wav'')) ''en'' w2 = (result, w3)"
    by (cases "synthesize_speech ?ext example_engine ''hello'' ''out/speech.wav''
       (Some (temp_path_of ''refs/a.wav'')) ''en'' w2") blast
  have res: "result = Failure ''model failure'' None"
    using synthesize_speech_raising [OF o, of example_engine "''hello''"
        "Some (temp_path_of ''refs/a.wav'')" "''en''" w2] syn by simp
  have "fst (clone_voice ?ext example_engine ''hello'' ''refs/a.wav'' ''out/speech.wav'' ''en'' ?w) =
          Failure ''model failure'' None"
    using clone_voice_after_save [OF f v pre n d refl refl w2_def syn] res by simp
  moreover from clone_voice_removes_temp_file [OF f v pre n d, of "''hello''" "''out/speech.wav''" "''en''"]
  have "files (snd (clone_voice ?ext example_engine ''hello'' ''refs/a.wav'' ''out/speech.wav'' ''en'' ?w))
          ''refs/a_processed.wav'' = None"
    by (simp add: temp_ex)
  ultimately show ?thesis by simp
qed








lemma temp_path_of_twice: "temp_path_of ''a.wav.wav'' = ''a_processed.wav_processed.wav''"
  by (simp add: temp_path_of_def replace_def)



section \<open>Quality validation\<close>

text \<open>
  C3, as the claim states it, fails on the empty waveform: its duration, zero, is below
  a minimum duration of one second, yet \<open>validate_audio_quality\<close> returns no report at
  all, because the peak of an empty array does not exist.
\<close>

theorem validate_audio_quality_empty_raises:
  "validate_audio_quality default_processor [] 1 =
     Inl (ValueError ''zero-size array to reduction operation maximum which has no identity'') \<and>
   real (length ([] :: waveform)) / real (sample_rate default_processor) < 1"
  by (simp add: validate_audio_quality_def np_max_def default_processor_def)

text \<open>
  C3, amended. For every non-empty waveform and a processor with a positive sample rate,
  \<open>validate_audio_quality\<close> returns a report, and the report is invalid exactly when the
  duration is below the minimum or the RMS is below 0.01. A peak above 0.99 and an SNR
  below 10 dB add their issue to the list and do not enter the verdict.
\<close>

theorem validate_audio_quality_verdict:
  assumes "sample_rate ap \<noteq> 0" and "audio \<noteq> []"
  shows "\<exists>v. validate_audio_quality ap audio min_duration = Inr v \<and>
           duration v = real (length audio) / real (sample_rate ap) \<and>
           rms_level v = rms audio \<and>
           np_max (map abs audio) = Inr (peak v) \<and>
           snr_db v = snr_estimate (np_std audio) (np_std (take (sample_rate ap div 10) audio)) \<and>
           (\<not> is_valid v \<longleftrightarrow> duration v < min_duration \<or> fl_less (rms_level v) (1 / 100)) \<and>
           (MayClip \<in> set (issues v) \<longleftrightarrow> peak v > 99 / 100) \<and>
           (LowSNR \<in> set (issues v) \<longleftrightarrow> fl_less (snr_db v) 10) \<and>
           (TooShort (duration v) min_duration \<in> set (issues v) \<longleftrightarrow> duration v < min_duration) \<and>
           (LevelTooLow \<in> set (issues v) \<longleftrightarrow> fl_less (rms_level v) (1 / 100))"
  using assms by (simp add: validate_audio_quality_def np_max_def Let_def)

lemma rms_one: "rms [1] = Finite 1"
  by (simp add: rms_def np_mean_def np_sqrt_def)

lemma std_one: "np_std [1] = Finite 0"
  by (simp add: np_std_def)

theorem validate_audio_quality_verdict_witness:
  "\<exists>v. validate_audio_quality \<lparr>sample_rate = 10\<rparr> [1] (1 / 10) = Inr v \<and> is_valid v \<and>
         MayClip \<in> set (issues v) \<and> LowSNR \<in> set (issues v)"
proof -
  have a: "sample_rate \<lparr>sample_rate = 10\<rparr> \<noteq> 0" by simp
  have b: "[1 :: real] \<noteq> []" by simp
  from validate_audio_quality_verdict [OF a b, of "1 / 10"]
  show ?thesis by (auto simp: rms_one std_one np_max_def snr_estimate_def)
qed

section \<open>Properties of the voice model registry\<close>

text \<open>
  C2. When validation with a minimum duration of 10 seconds reports invalid,
  \<open>create_voice_model\<close> returns the validation failure with the issues of the report, and
  the registry is as before: the metadata in memory, the files (so no reference audio
  and no metadata document is written) and the directories.
\<close>

theorem create_voice_model_rejects_invalid_audio:
  assumes "files w audio_path = Some (Audio audio)"
    and "validate_audio_quality (cloner_processor vc) audio 10 = Inr v"
    and "\<not> is_valid v"
  shows "\<exists>w'. create_voice_model ext vc audio_path name description now_id now_created w =
                 (Failure ''Audio quality validation failed'' (Some (issues v)), vc, w') \<and>
              files w' = files w \<and> dirs w' = dirs w"
proof -
  have "create_voice_model ext vc audio_path name description now_id now_created w =
          (Failure ''Audio quality validation failed'' (Some (issues v)), vc,
           logger INFO (CreatingVoiceModel name) w)"
    using assms by (simp add: create_voice_model_def Let_def load_audio_logged)
  moreover have "files (logger INFO (CreatingVoiceModel name) w) = files w"
    and "dirs (logger INFO (CreatingVoiceModel name) w) = dirs w"
    by (simp_all add: logger_def)
  ultimately show ?thesis by blast
qed

text \<open>An instance: a clip of three seconds at 22050 Hz.\<close>

theorem create_voice_model_rejects_invalid_audio_witness:
  "\<exists>found w'.
     create_voice_model (stub_externals writing_model) example_cloner ''uploads/clip.wav''
         ''My Voice!'' [] example_time example_time
         (example_world ''uploads/clip.wav'' (replicate 66150 (1 / 2))) =
       (Failure ''Audio quality validation failed'' (Some found), example_cloner, w') \<and>
     TooShort 3 10 \<in> set found \<and>
     files w' = files (example_world ''uploads/clip.wav'' (replicate 66150 (1 / 2))) \<and>
     dirs w' = {}"
proof -
  let ?a = "replicate 66150 (1 / 2 :: real)"
  have f: "files (example_world ''uploads/clip.wav'' ?a) ''uploads/clip.wav'' = Some (Audio ?a)"
    by (simp add: example_world_def)
  have ne: "?a \<noteq> []" by simp
  have sr: "sample_rate default_processor \<noteq> 0" by (simp add: default_processor_def)
  obtain v where v: "validate_audio_quality (cloner_processor example_cloner) ?a 10 = Inr v"
    and iv: "is_valid v \<longleftrightarrow> \<not> (duration v < 10 \<or> fl_less (rms_level v) (1 / 100))"
    and dv: "duration v = real (length ?a) / real (sample_rate default_processor)"
    and ts: "TooShort (duration v) 10 \<in> set (issues v) \<longleftrightarrow> duration v < 10"
    using validate_nonempty [OF sr ne, of 10] by (auto simp: example_cloner_def)
  have d3: "duration v = 3" using dv by (simp add: default_processor_def)
  have inv: "\<not> is_valid v" using iv d3 by simp
  have short: "TooShort 3 10 \<in> set (issues v)" using ts d3 by simp
  from create_voice_model_rejects_invalid_audio [OF f v inv]
  show ?thesis using short by (fastforce simp: example_world_def)
qed

text \<open>
  C8. For an existing model, \<open>update_model_info\<close> with only a description stores the
  description and the time stamp \<^verbatim>\<open>updated_at\<close> and leaves every other key of the entry,
  the name among them, as it was; the other entries are untouched, the document written
  to the metadata file is the new metadata, and the entry returned is the stored one.
\<close>

theorem update_model_info_description_only:
  assumes "metadata vc model_id = Some info"
  shows "\<exists>info'.
           update_model_info vc model_id None (Some d) now w =
             (Success info',
              vc\<lparr>metadata := (metadata vc)(model_id \<mapsto> info')\<rparr>,
              w\<lparr>files := (files w)(metadata_file vc \<mapsto>
                             Document ((metadata vc)(model_id \<mapsto> info')))\<rparr>) \<and>
           info' ''description'' = Some (JString d) \<and>
           info' ''updated_at'' = Some (JString (isoformat now)) \<and>
           info' ''name'' = info ''name'' \<and>
           (\<forall>k. k \<noteq> ''description'' \<and> k \<noteq> ''updated_at'' \<longrightarrow> info' k = info k)"
  using assms
  by (simp add: update_model_info_def Let_def save_metadata_def metadata_file_def)

theorem update_model_info_description_only_witness:
  "\<exists>info'.
     update_model_info example_cloner ''old_voice_20240101_120000'' None (Some ''second take'')
         example_time (example_world ''refs/a.wav'' [1 / 2]) =
       (Success info',
        example_cloner\<lparr>metadata := (metadata example_cloner)(''old_voice_20240101_120000'' \<mapsto> info')\<rparr>,
        (example_world ''refs/a.wav'' [1 / 2])
          \<lparr>files := (files (example_world ''refs/a.wav'' [1 / 2]))
             (''models/models_metadata.json'' \<mapsto>
                Document ((metadata example_cloner)(''old_voice_20240101_120000'' \<mapsto> info')))\<rparr>) \<and>
     info' ''description'' = Some (JString ''second take'') \<and>
     info' ''updated_at'' = Some (JString ''2024-01-01T12:00:00'') \<and>
     info' ''name'' = Some (JString ''Old Voice'') \<and>
     info' ''id'' = Some (JString ''old_voice_20240101_120000'')"
proof -
  have m: "metadata example_cloner ''old_voice_20240101_120000'' =
             Some [''id'' \<mapsto> JString ''old_voice_20240101_120000'',
                   ''name'' \<mapsto> JString ''Old Voice'',
                   ''description'' \<mapsto> JString ''first take'']"
    by (simp add: example_cloner_def)
  have iso: "isoformat example_time = ''2024-01-01T12:00:00''"
    by code_simp
  have mf: "metadata_file example_cloner = ''models/models_metadata.json''"
    by (simp add: metadata_file_def example_cloner_def)
  from update_model_info_description_only [OF m, of "''second take''" example_time
      "example_world ''refs/a.wav'' [1 / 2]"]
  obtain info' where
    u: "update_model_info example_cloner ''old_voice_20240101_120000'' None (Some ''second take'')
         example_time (example_world ''refs/a.wav'' [1 / 2]) =
       (Success info',
        example_cloner\<lparr>metadata := (metadata example_cloner)(''old_voice_20240101_120000'' \<mapsto> info')\<rparr>,
        (example_world ''refs/a.wav'' [1 / 2])
          \<lparr>files := (files (example_world ''refs/a.wav'' [1 / 2]))
             (metadata_file example_cloner \<mapsto>
                Document ((metadata example_cloner)(''old_voice_20240101_120000'' \<mapsto> info')))\<rparr>)"
    and d: "info' ''description'' = Some (JString ''second take'')"
    and t: "info' ''updated_at'' = Some (JString (isoformat example_time))"
    and n: "info' ''name'' = [''id'' \<mapsto> JString ''old_voice_20240101_120000'',
                   ''name'' \<mapsto> JString ''Old Voice'',
                   ''description'' \<mapsto> JString ''first take''] ''name''"
    and fr: "\<forall>k. k \<noteq> ''description'' \<and> k \<noteq> ''updated_at'' \<longrightarrow>
               info' k = [''id'' \<mapsto> JString ''old_voice_20240101_120000'',
                   ''name'' \<mapsto> JString ''Old Voice'',
                   ''description'' \<mapsto> JString ''first take''] k"
    by blast
  have i: "info' ''id'' = Some (JString ''old_voice_20240101_120000'')"
    using fr by simp
  have n': "info' ''name'' = Some (JString ''Old Voice'')" using n by simp
  show ?thesis using u d t n' i unfolding iso mf by blast
qed

text \<open>
  C10. For an existing model, an empty name is treated as no name: the call is the same
  as the call without a name, and the stored name stays. An empty description is stored.
  In both cases \<^verbatim>\<open>updated_at\<close> is stamped and the metadata is written.
\<close>

theorem update_model_info_empty_strings:
  assumes "metadata vc model_id = Some info"
  shows "update_model_info vc model_id (Some []) description now w =
           update_model_info vc model_id None description now w \<and>
         (\<exists>info'.
            update_model_info vc model_id (Some []) description now w =
              (Success info',
               vc\<lparr>metadata := (metadata vc)(model_id \<mapsto> info')\<rparr>,
               w\<lparr>files := (files w)(metadata_file vc \<mapsto>
                              Document ((metadata vc)(model_id \<mapsto> info')))\<rparr>) \<and>
            info' ''name'' = info ''name'' \<and>
            info' ''updated_at'' = Some (JString (isoformat now))) \<and>
         (\<exists>info'.
            update_model_info vc model_id name (Some []) now w =
              (Success info',
               vc\<lparr>metadata := (metadata vc)(model_id \<mapsto> info')\<rparr>,
               w\<lparr>files := (files w)(metadata_file vc \<mapsto>
                              Document ((metadata vc)(model_id \<mapsto> info')))\<rparr>) \<and>
            info' ''description'' = Some (JString []) \<and>
            info' ''updated_at'' = Some (JString (isoformat now)))"
  using assms
  by (auto simp: update_model_info_def Let_def save_metadata_def metadata_file_def
      split: option.splits)

theorem update_model_info_empty_strings_witness:
  "fst (update_model_info example_cloner ''old_voice_20240101_120000'' (Some []) (Some [])
          example_time (example_world ''refs/a.wav'' [1 / 2])) =
     Success [''id'' \<mapsto> JString ''old_voice_20240101_120000'',
              ''name'' \<mapsto> JString ''Old Voice'',
              ''description'' \<mapsto> JString [],
              ''updated_at'' \<mapsto> JString ''2024-01-01T12:00:00'']"
proof -
  have m: "metadata example_cloner ''old_voice_20240101_120000'' =
             Some [''id'' \<mapsto> JString ''old_voice_20240101_120000'',
                   ''name'' \<mapsto> JString ''Old Voice'',
                   ''description'' \<mapsto> JString ''first take'']"
    by (simp add: example_cloner_def)
  have iso: "isoformat example_time = ''2024-01-01T12:00:00''"
    by code_simp
  have "update_model_info example_cloner ''old_voice_20240101_120000'' (Some []) (Some [])
          example_time (example_world ''refs/a.wav'' [1 / 2]) =
        update_model_info example_cloner ''old_voice_20240101_120000'' None (Some [])
          example_time (example_world ''refs/a.wav'' [1 / 2])"
    using update_model_info_empty_strings [OF m] by blast
  then show ?thesis
    by (simp add: update_model_info_def m Let_def iso fun_upd_twist)
qed

section \<open>Model identifiers\<close>

lemma digit_eq_iff: "digit a = digit b \<longleftrightarrow> a mod 10 = b mod 10"
proof -
  have d: "distinct ''0123456789''" by simp
  have "a mod 10 < length ''0123456789''" "b mod 10 < length ''0123456789''" by simp_all
  with d show ?thesis unfolding digit_def by (simp only: nth_eq_iff_index_eq)
qed

lemma digit_is_digit: "digit d \<in> set ''0123456789''"
  unfolding digit_def by (rule nth_mem) simp

lemma last_two_digits:
  fixes a b :: nat
  assumes "a mod 10 = b mod 10" "a div 10 mod 10 = b div 10 mod 10"
  shows "a mod 100 = b mod 100"
proof -
  have "a mod 100 = 10 * (a div 10 mod 10) + a mod 10"
    using mod_mult2_eq [of a 10 10] by simp
  moreover have "b mod 100 = 10 * (b div 10 mod 10) + b mod 10"
    using mod_mult2_eq [of b 10 10] by simp
  ultimately show ?thesis using assms by simp
qed

lemma pad2_inj:
  assumes "a < 100" "b < 100" "pad2 a = pad2 b"
  shows "a = b"
proof -
  from assms(3) have "a mod 10 = b mod 10" "a div 10 mod 10 = b div 10 mod 10"
    by (simp_all add: pad2_def digit_eq_iff)
  then have "a mod 100 = b mod 100" by (rule last_two_digits)
  with assms(1,2) show ?thesis by simp
qed

lemma pad4_inj:
  assumes "a < 10000" "b < 10000" "pad4 a = pad4 b"
  shows "a = b"
proof -
  from assms(3) have lo: "a mod 10 = b mod 10" "a div 10 mod 10 = b div 10 mod 10"
    and hi: "a div 100 mod 10 = b div 100 mod 10" "a div 1000 mod 10 = b div 1000 mod 10"
    by (simp_all add: pad4_def digit_eq_iff)
  have l: "a mod 100 = b mod 100" using lo by (rule last_two_digits)
  have "a div 100 div 10 = a div 1000" "b div 100 div 10 = b div 1000"
    by (simp_all add: div_mult2_eq [symmetric])
  with hi have "(a div 100) mod 100 = (b div 100) mod 100"
    by (intro last_two_digits) simp_all
  moreover have "a div 100 < 100" "b div 100 < 100" using assms(1,2) by simp_all
  ultimately have h: "a div 100 = b div 100" by simp
  have "a = 100 * (a div 100) + a mod 100" "b = 100 * (b div 100) + b mod 100" by simp_all
  with h l show ?thesis by simp
qed

lemma strftime_inj:
  assumes "valid_datetime a" "valid_datetime b" "strftime a = strftime b"
  shows "year a = year b \<and> month a = month b \<and> day a = day b \<and>
         hour a = hour b \<and> minute a = minute b \<and> second a = second b"
proof -
  have eqs: "pad4 (year a) = pad4 (year b)" "pad2 (month a) = pad2 (month b)"
    "pad2 (day a) = pad2 (day b)" "pad2 (hour a) = pad2 (hour b)"
    "pad2 (minute a) = pad2 (minute b)" "pad2 (second a) = pad2 (second b)"
    using assms(3) by (simp_all add: strftime_def pad4_def pad2_def)
  have b: "year a < 10000" "year b < 10000" "month a < 100" "month b < 100"
    "day a < 100" "day b < 100" "hour a < 100" "hour b < 100"
    "minute a < 100" "minute b < 100" "second a < 100" "second b < 100"
    using assms(1,2) by (simp_all add: valid_datetime_def)
  note pad4_inj [OF b(1) b(2) eqs(1)] pad2_inj [OF b(3) b(4) eqs(2)]
    pad2_inj [OF b(5) b(6) eqs(3)] pad2_inj [OF b(7) b(8) eqs(4)]
    pad2_inj [OF b(9) b(10) eqs(5)] pad2_inj [OF b(11) b(12) eqs(6)]
  then show ?thesis by simp
qed

lemma strftime_shape:
  "\<exists>date time. strftime dt = date @ ''_'' @ time \<and> length date = 8 \<and> length time = 6 \<and>
     set date \<subseteq> set ''0123456789'' \<and> set time \<subseteq> set ''0123456789''"
proof -
  let ?d = "pad4 (year dt) @ pad2 (month dt) @ pad2 (day dt)"
  let ?t = "pad2 (hour dt) @ pad2 (minute dt) @ pad2 (second dt)"
  have "strftime dt = ?d @ ''_'' @ ?t" by (simp add: strftime_def)
  moreover have "length ?d = 8" "length ?t = 6" by (simp_all add: pad4_def pad2_def)
  moreover have "set ?d \<subseteq> set ''0123456789''"
    using digit_is_digit by (auto simp: pad4_def pad2_def)
  moreover have "set ?t \<subseteq> set ''0123456789''"
    using digit_is_digit by (auto simp: pad2_def)
  ultimately show ?thesis by blast
qed

lemma sanitize_ascii:
  assumes "(of_char c :: nat) < 128"
  shows "lower_alnum_underscore (if isalnum (lower_char c) then lower_char c else CHR ''_'')"
proof (cases "65 \<le> (of_char c :: nat) \<and> (of_char c :: nat) \<le> 90")
  case True
  then have "(of_char (lower_char c) :: nat) = of_char c + 32"
    by (simp add: lower_char_def Let_def)
  with True show ?thesis
    by (simp add: lower_alnum_underscore_def isalnum_def Let_def)
next
  case False
  with assms have "lower_char c = c" by (auto simp: lower_char_def Let_def)
  with False assms show ?thesis
    by (auto simp: lower_alnum_underscore_def isalnum_def Let_def)
qed

lemma clean_name_Nil: "clean_name [] = []"
  by (simp add: clean_name_def lower_def)

lemma clean_name_Cons:
  "clean_name (c # cs) =
     (if isalnum (lower_char c) then lower_char c else CHR ''_'') # clean_name cs"
  by (simp add: clean_name_def lower_def)

lemma clean_name_alnum: "list_all (\<lambda>c. isalnum c \<or> c = CHR ''_'') (clean_name name)"
proof (induction name)
  case Nil
  show ?case by (simp add: clean_name_Nil)
next
  case (Cons c cs)
  then show ?case by (simp add: clean_name_Cons)
qed

lemma clean_name_ascii:
  "list_all (\<lambda>c. (of_char c :: nat) < 128) name \<Longrightarrow>
     list_all lower_alnum_underscore (clean_name name)"
proof (induction name)
  case Nil
  show ?case by (simp add: clean_name_Nil)
next
  case (Cons c cs)
  then have "(of_char c :: nat) < 128" and "list_all lower_alnum_underscore (clean_name cs)"
    by simp_all
  then show ?case
    using sanitize_ascii [of c] by (simp add: clean_name_Cons)
qed

text \<open>
  C4, as the claim states it, fails on names outside ASCII: \<^verbatim>\<open>str.isalnum\<close> accepts the
  letter U+00E9, so the sanitized prefix of that name is the letter itself, which is not
  in \<^verbatim>\<open>[a-z0-9_]\<close>.
\<close>

theorem clean_name_not_ascii_counterexample:
  "clean_name [CHR 0xE9] = [CHR 0xE9] \<and>
   CHR 0xE9 \<notin> set ''abcdefghijklmnopqrstuvwxyz0123456789_'' \<and>
   \<not> list_all lower_alnum_underscore (clean_name [CHR 0xE9])"
  by code_simp

text \<open>
  C4, amended. The model id is the lowercased name with every character that
  \<^verbatim>\<open>str.isalnum\<close> rejects replaced by an underscore, then an underscore, then the time as
  eight digits, an underscore and six digits. Every character of the prefix is
  alphanumeric in the sense of \<^verbatim>\<open>str.isalnum\<close> or an underscore; for an ASCII name the
  prefix lies in \<^verbatim>\<open>[a-z0-9_]\<close>. Two ids of one name made in different seconds have the
  same prefix and different time suffixes.
\<close>

theorem generate_model_id_shape:
  "generate_model_id name now =
     map (\<lambda>c. if isalnum c then c else CHR ''_'') (lower name) @ ''_'' @ strftime now \<and>
   list_all (\<lambda>c. isalnum c \<or> c = CHR ''_'') (clean_name name) \<and>
   (list_all (\<lambda>c. (of_char c :: nat) < 128) name \<longrightarrow>
      list_all lower_alnum_underscore (clean_name name)) \<and>
   (\<exists>date time. strftime now = date @ ''_'' @ time \<and> length date = 8 \<and> length time = 6 \<and>
      set date \<subseteq> set ''0123456789'' \<and> set time \<subseteq> set ''0123456789'') \<and>
   (valid_datetime now \<and> valid_datetime later \<and>
    (year now, month now, day now, hour now, minute now, second now) \<noteq>
      (year later, month later, day later, hour later, minute later, second later) \<longrightarrow>
      generate_model_id name now = clean_name name @ ''_'' @ strftime now \<and>
      generate_model_id name later = clean_name name @ ''_'' @ strftime later \<and>
      strftime now \<noteq> strftime later \<and>
      generate_model_id name now \<noteq> generate_model_id name later)"
proof -
  have a: "generate_model_id name now =
     map (\<lambda>c. if isalnum c then c else CHR ''_'') (lower name) @ ''_'' @ strftime now"
    by (simp add: generate_model_id_def clean_name_def)
  have e: "valid_datetime now \<and> valid_datetime later \<and>
    (year now, month now, day now, hour now, minute now, second now) \<noteq>
      (year later, month later, day later, hour later, minute later, second later) \<longrightarrow>
      generate_model_id name now = clean_name name @ ''_'' @ strftime now \<and>
      generate_model_id name later = clean_name name @ ''_'' @ strftime later \<and>
      strftime now \<noteq> strftime later \<and>
      generate_model_id name now \<noteq> generate_model_id name later"
    using strftime_inj [of now later] by (auto simp: generate_model_id_def)
  show ?thesis
    using a clean_name_alnum [of name] clean_name_ascii [of name] strftime_shape [of now] e
    by blast
qed

theorem generate_model_id_shape_witness:
  "generate_model_id ''My Voice!'' example_time = ''my_voice__20240101_120000'' \<and>
   generate_model_id ''My Voice!'' (example_time\<lparr>second := 1\<rparr>) = ''my_voice__20240101_120001'' \<and>
   list_all lower_alnum_underscore (clean_name ''My Voice!'') \<and>
   generate_model_id ''My Voice!'' example_time \<noteq>
     generate_model_id ''My Voice!'' (example_time\<lparr>second := 1\<rparr>)"
proof -
  have v: "valid_datetime example_time" "valid_datetime (example_time\<lparr>second := 1\<rparr>)"
    by (simp_all add: valid_datetime_def example_time_def)
  have ne: "(year example_time, month example_time, day example_time, hour example_time,
             minute example_time, second example_time) \<noteq>
            (year (example_time\<lparr>second := 1\<rparr>), month (example_time\<lparr>second := 1\<rparr>),
             day (example_time\<lparr>second := 1\<rparr>), hour (example_time\<lparr>second := 1\<rparr>),
             minute (example_time\<lparr>second := 1\<rparr>), second (example_time\<lparr>second := 1\<rparr>))"
    by (simp add: example_time_def)
  have asc: "list_all (\<lambda>c. (of_char c :: nat) < 128) ''My Voice!''" by simp
  have i1: "generate_model_id ''My Voice!'' example_time = ''my_voice__20240101_120000''"
    by code_simp
  have i2: "generate_model_id ''My Voice!'' (example_time\<lparr>second := 1\<rparr>) = ''my_voice__20240101_120001''"
    by code_simp
  from generate_model_id_shape [of "''My Voice!''" example_time "example_time\<lparr>second := 1\<rparr>"]
  show ?thesis using v ne asc i1 i2 by blast
qed

end
